theory Spec2Isabelle
  imports Main "HOL-Library.Multiset"
begin

section \<open>The field codec of the task application\<close>

text \<open>
  The codec (\<^verbatim>\<open>lib/encryption.ts\<close>) consists of four functions around two facilities
  it does not implement itself: the CryptoJS library (\<^verbatim>\<open>CryptoJS.AES.encrypt\<close>,
  \<^verbatim>\<open>CryptoJS.AES.decrypt\<close>, \<^verbatim>\<open>CryptoJS.enc.Utf8\<close>) and the JavaScript built-ins
  \<^verbatim>\<open>JSON.stringify\<close> and \<^verbatim>\<open>JSON.parse\<close>. Both are parameters of the model: every
  function of the codec takes the run-time environment \<open>E\<close> it is executed in, and the
  theorems hold for every environment unless a hypothesis says what is required of it.

  A JavaScript string is modelled by the bytes of its UTF-8 encoding, so a character
  outside ASCII takes several elements and the empty string is the empty list. A thrown
  exception is a value of type \<open>exn\<close> on the left of a sum.
\<close>

subsection \<open>Exceptions and the run-time environment\<close>

datatype exn =
    Error string
  | TypeError string
  | SyntaxError string

type_synonym WordArray = "char list"

text \<open>
  \<^item> \<open>AES_encrypt E salt data email\<close> is \<^verbatim>\<open>CryptoJS.AES.encrypt(data, email).toString()\<close>.
    The library draws a fresh random salt in every call; the model passes the bytes drawn
    as \<open>salt\<close>. TypeScript's annotation \<^verbatim>\<open>data: string\<close> is erased at run time and
    \<^verbatim>\<open>JSON.stringify\<close> may hand over \<^verbatim>\<open>undefined\<close>, which is \<open>None\<close>.
  \<^item> \<open>AES_decrypt E encryptedData email\<close> is \<^verbatim>\<open>CryptoJS.AES.decrypt(encryptedData, email)\<close>,
    a byte array. For an input that carries no salt the library derives the key from a
    salt it draws at random; an environment fixes what is drawn.
  \<^item> \<open>Utf8_stringify E decrypted\<close> is \<^verbatim>\<open>decrypted.toString(CryptoJS.enc.Utf8)\<close>.
  \<^item> \<open>JSON_stringify E obj\<close> is \<^verbatim>\<open>JSON.stringify(obj)\<close>: it throws, returns
    \<^verbatim>\<open>undefined\<close> (\<open>None\<close>) or returns a text.
  \<^item> \<open>JSON_parse E text\<close> is \<^verbatim>\<open>JSON.parse(text)\<close>.
\<close>

record 'v runtime =
  AES_encrypt :: "string \<Rightarrow> string option \<Rightarrow> string \<Rightarrow> exn + string"
  AES_decrypt :: "string \<Rightarrow> string \<Rightarrow> exn + WordArray"
  Utf8_stringify :: "WordArray \<Rightarrow> exn + string"
  JSON_stringify :: "'v \<Rightarrow> exn + string option"
  JSON_parse :: "string \<Rightarrow> exn + 'v"

subsection \<open>The four functions of the codec\<close>

text \<open>
  The two errors the codec raises itself. The source throws plain \<^verbatim>\<open>Error\<close> objects told
  apart by their message; the names are the ones the specification gives them.
\<close>

definition EncryptionError :: exn where
  "EncryptionError = Error ''Failed to encrypt data''"

definition DecryptionError :: exn where
  "DecryptionError = Error ''Failed to decrypt data''"

text \<open>
  \<^verbatim>\<open>encryptData\<close>: whatever the library throws is caught and replaced by the codec's own
  error (the \<^verbatim>\<open>console.error\<close> call has no effect on the result and is left out).
\<close>

definition encryptData :: "'v runtime \<Rightarrow> string \<Rightarrow> string option \<Rightarrow> string \<Rightarrow> exn + string" where
  "encryptData E salt data email =
     (case AES_encrypt E salt data email of
        Inl error \<Rightarrow> Inl (Error ''Failed to encrypt data'')
      | Inr encrypted \<Rightarrow> Inr encrypted)"

text \<open>
  \<^verbatim>\<open>decryptData\<close>: the \<^verbatim>\<open>try\<close> block covers the decryption, the UTF-8 decoding and
  the \<^verbatim>\<open>throw\<close> for an empty text, so each of the three ends in the \<^verbatim>\<open>catch\<close> clause,
  which throws the one error. For a string, \<^verbatim>\<open>!text\<close> holds exactly when it is empty.
\<close>

definition decryptData :: "'v runtime \<Rightarrow> string \<Rightarrow> string \<Rightarrow> exn + string" where
  "decryptData E encryptedData email =
     (case AES_decrypt E encryptedData email of
        Inl error \<Rightarrow> Inl (Error ''Failed to decrypt data'')
      | Inr decrypted \<Rightarrow>
          (case Utf8_stringify E decrypted of
             Inl error \<Rightarrow> Inl (Error ''Failed to decrypt data'')
           | Inr text \<Rightarrow>
               if text = [] then Inl (Error ''Failed to decrypt data'')
               else Inr text))"

text \<open>
  \<^verbatim>\<open>encryptObject\<close> and \<^verbatim>\<open>decryptObject\<close> have no \<^verbatim>\<open>try\<close> of their own: an exception
  of \<^verbatim>\<open>JSON.stringify\<close>, \<^verbatim>\<open>JSON.parse\<close> or of the function they delegate to leaves them
  unchanged.
\<close>

definition encryptObject :: "'v runtime \<Rightarrow> string \<Rightarrow> 'v \<Rightarrow> string \<Rightarrow> exn + string" where
  "encryptObject E salt obj email =
     (case JSON_stringify E obj of
        Inl error \<Rightarrow> Inl error
      | Inr jsonString \<Rightarrow> encryptData E salt jsonString email)"

definition decryptObject :: "'v runtime \<Rightarrow> string \<Rightarrow> string \<Rightarrow> exn + 'v" where
  "decryptObject E encryptedData email =
     (case decryptData E encryptedData email of
        Inl error \<Rightarrow> Inl error
      | Inr decrypted \<Rightarrow> JSON_parse E decrypted)"

subsection \<open>What the codec asks of the cipher\<close>

text \<open>
  \<open>primitive_roundtrip E salt s p\<close>: in the environment \<open>E\<close> the library encrypts the text
  \<open>s\<close> under the passphrase \<open>p\<close> with the salt drawn, and decrypting the outcome under \<open>p\<close>
  and decoding it as UTF-8 gives \<open>s\<close> back. This is the library's own round trip, with
  no part of the codec in it.
\<close>

definition primitive_roundtrip :: "'v runtime \<Rightarrow> string \<Rightarrow> string \<Rightarrow> string \<Rightarrow> bool" where
  "primitive_roundtrip E salt s p =
     (case AES_encrypt E salt (Some s) p of
        Inl error \<Rightarrow> False
      | Inr c \<Rightarrow>
          (case AES_decrypt E c p of
             Inl error \<Rightarrow> False
           | Inr w \<Rightarrow> Utf8_stringify E w = Inr s))"

text \<open>
  \<open>primitive_decodes E c p\<close> is the text, if any, that the library recovers from \<open>c\<close> under
  \<open>p\<close>: \<open>None\<close> when the decryption or the UTF-8 decoding throws.
\<close>

definition primitive_decodes :: "'v runtime \<Rightarrow> string \<Rightarrow> string \<Rightarrow> string option" where
  "primitive_decodes E c p =
     (case AES_decrypt E c p of
        Inl error \<Rightarrow> None
      | Inr w \<Rightarrow> (case Utf8_stringify E w of Inl error \<Rightarrow> None | Inr t \<Rightarrow> Some t))"


subsection \<open>A reference environment\<close>

text \<open>
  To run the codec on concrete inputs the theory carries one executable environment. It
  is a stand-in with the interface of the real one, not a model of AES: the ciphertext
  has the layout of the OpenSSL format that CryptoJS writes (the marker \<^verbatim>\<open>Salted__\<close>, eight
  bytes of salt, the body), and the body is the text with one key byte, derived from the
  passphrase and the salt, added to every byte. An input without the marker carries no
  salt: as CryptoJS does, the stand-in then takes the whole input as the body and derives
  the key from bytes drawn at random, here the fixed bytes \<open>drawn_salt\<close>, and it does not
  throw. Decoding as UTF-8 accepts exactly the well-formed byte sequences of the Unicode
  standard. Only the theorems about concrete inputs and the lemmas they rest on refer to
  this environment.
\<close>

definition key_byte :: "string \<Rightarrow> string \<Rightarrow> nat" where
  "key_byte passphrase salt = sum_list (map of_char (passphrase @ salt)) mod 256"

definition shift_bytes :: "nat \<Rightarrow> char list \<Rightarrow> char list" where
  "shift_bytes k = map (\<lambda>c. char_of (of_char c + k :: nat))"

definition reference_encrypt :: "string \<Rightarrow> string option \<Rightarrow> string \<Rightarrow> exn + string" where
  "reference_encrypt salt data passphrase =
     Inr (''Salted__'' @ salt @
          shift_bytes (key_byte passphrase salt) (case data of None \<Rightarrow> [] | Some s \<Rightarrow> s))"

definition reference_decrypt :: "string \<Rightarrow> string \<Rightarrow> string \<Rightarrow> exn + WordArray" where
  "reference_decrypt drawn c passphrase =
     (if take 8 c = ''Salted__''
      then Inr (shift_bytes (256 - key_byte passphrase (take 8 (drop 8 c))) (drop 16 c))
      else Inr (shift_bytes (256 - key_byte passphrase drawn) c))"

definition drawn_salt :: string where
  "drawn_salt = ''drawn00+''"

fun continuation :: "nat \<Rightarrow> bool" where
  "continuation b = (128 \<le> b \<and> b \<le> 191)"

fun utf8_wellformed :: "nat list \<Rightarrow> bool" where
  "utf8_wellformed [] = True"
| "utf8_wellformed (a # bs) =
     (if a < 128 then utf8_wellformed bs
      else if 194 \<le> a \<and> a \<le> 223 then
        (case bs of b # r \<Rightarrow> continuation b \<and> utf8_wellformed r | _ \<Rightarrow> False)
      else if 224 \<le> a \<and> a \<le> 239 then
        (case bs of b # c # r \<Rightarrow>
             (if a = 224 then 160 \<le> b \<and> b \<le> 191
              else if a = 237 then 128 \<le> b \<and> b \<le> 159
              else continuation b)
             \<and> continuation c \<and> utf8_wellformed r
         | _ \<Rightarrow> False)
      else if 240 \<le> a \<and> a \<le> 244 then
        (case bs of b # c # d # r \<Rightarrow>
             (if a = 240 then 144 \<le> b \<and> b \<le> 191
              else if a = 244 then 128 \<le> b \<and> b \<le> 143
              else continuation b)
             \<and> continuation c \<and> continuation d \<and> utf8_wellformed r
         | _ \<Rightarrow> False)
      else False)"

definition reference_utf8 :: "WordArray \<Rightarrow> exn + string" where
  "reference_utf8 w =
     (if utf8_wellformed (map of_char w) then Inr w else Inl (Error ''Malformed UTF-8 data''))"


text \<open>
  The values handed to \<^verbatim>\<open>JSON.stringify\<close> in the reference environment: the JSON values
  (numbers restricted to integers), and \<^verbatim>\<open>undefined\<close>, functions and BigInts, which are
  JavaScript values without a JSON form. An object is the list of its own enumerable
  properties in their order. A datatype has no cycles, so cyclic objects are outside
  this environment.
\<close>

datatype jsvalue =
    JUndefined
  | JNull
  | JBoolean bool
  | JNumber int
  | JBigInt int
  | JString string
  | JFunction
  | JArray "jsvalue list"
  | JObject "(string \<times> jsvalue) list"

fun digits :: "nat \<Rightarrow> string" where
  "digits n =
     (if n < 10 then [char_of (48 + n)] else digits (n div 10) @ [char_of (48 + n mod 10)])"

definition Number_toString :: "int \<Rightarrow> string" where
  "Number_toString i = (if i < 0 then ''-'' @ digits (nat (- i)) else digits (nat i))"

definition hex_digit :: "nat \<Rightarrow> char" where
  "hex_digit d = (if d < 10 then char_of (48 + d) else char_of (87 + d))"

text \<open>
  \<^verbatim>\<open>QuoteJSONString\<close> of ECMAScript: the quotation mark (\<open>0x22\<close>) and the reverse solidus
  (\<open>0x5C\<close>) are escaped, control characters are written in their short form or as
  \<^verbatim>\<open>\u00XX\<close>, every other byte is copied.
\<close>

definition escape_char :: "char \<Rightarrow> string" where
  "escape_char c =
     (if c = CHR 0x22 then [CHR 0x5C, CHR 0x22]
      else if c = CHR 0x5C then [CHR 0x5C, CHR 0x5C]
      else if c = CHR 0x08 then [CHR 0x5C, CHR ''b'']
      else if c = CHR 0x09 then [CHR 0x5C, CHR ''t'']
      else if c = CHR 0x0A then [CHR 0x5C, CHR ''n'']
      else if c = CHR 0x0C then [CHR 0x5C, CHR ''f'']
      else if c = CHR 0x0D then [CHR 0x5C, CHR ''r'']
      else if (of_char c :: nat) < 32
        then [CHR 0x5C, CHR ''u'', CHR ''0'', CHR ''0'',
              hex_digit (of_char c div 16), hex_digit (of_char c mod 16)]
      else [c])"

definition QuoteJSONString :: "string \<Rightarrow> string" where
  "QuoteJSONString s = [CHR 0x22] @ concat (map escape_char s) @ [CHR 0x22]"

fun join :: "string list \<Rightarrow> string" where
  "join [] = []"
| "join [t] = t"
| "join (t # ts) = t @ '','' @ join ts"

text \<open>
  \<^verbatim>\<open>SerializeJSONProperty\<close> of ECMAScript on these values. \<^verbatim>\<open>undefined\<close> and a function
  have no serialisation (\<open>None\<close>): as an array element they are written \<^verbatim>\<open>null\<close>, as
  the value of a property the property is left out, and nothing is thrown. A BigInt
  throws a \<^verbatim>\<open>TypeError\<close>.
\<close>

fun SerializeJSONProperty :: "jsvalue \<Rightarrow> exn + string option"
  and SerializeJSONArray :: "jsvalue list \<Rightarrow> exn + string list"
  and SerializeJSONObject :: "(string \<times> jsvalue) list \<Rightarrow> exn + string list"
where
  "SerializeJSONProperty JUndefined = Inr None"
| "SerializeJSONProperty JFunction = Inr None"
| "SerializeJSONProperty JNull = Inr (Some ''null'')"
| "SerializeJSONProperty (JBoolean b) = Inr (Some (if b then ''true'' else ''false''))"
| "SerializeJSONProperty (JNumber i) = Inr (Some (Number_toString i))"
| "SerializeJSONProperty (JBigInt i) = Inl (TypeError ''Do not know how to serialize a BigInt'')"
| "SerializeJSONProperty (JString s) = Inr (Some (QuoteJSONString s))"
| "SerializeJSONProperty (JArray xs) =
     (case SerializeJSONArray xs of
        Inl e \<Rightarrow> Inl e
      | Inr ts \<Rightarrow> Inr (Some (''['' @ join ts @ '']'')))"
| "SerializeJSONProperty (JObject kvs) =
     (case SerializeJSONObject kvs of
        Inl e \<Rightarrow> Inl e
      | Inr ts \<Rightarrow> Inr (Some (''{'' @ join ts @ ''}'')))"
| "SerializeJSONArray [] = Inr []"
| "SerializeJSONArray (x # xs) =
     (case SerializeJSONProperty x of
        Inl e \<Rightarrow> Inl e
      | Inr t \<Rightarrow>
          (case SerializeJSONArray xs of
             Inl e \<Rightarrow> Inl e
           | Inr ts \<Rightarrow> Inr ((case t of None \<Rightarrow> ''null'' | Some s \<Rightarrow> s) # ts)))"
| "SerializeJSONObject [] = Inr []"
| "SerializeJSONObject ((k, v) # kvs) =
     (case SerializeJSONProperty v of
        Inl e \<Rightarrow> Inl e
      | Inr t \<Rightarrow>
          (case SerializeJSONObject kvs of
             Inl e \<Rightarrow> Inl e
           | Inr ts \<Rightarrow>
               Inr (case t of None \<Rightarrow> ts | Some s \<Rightarrow> (QuoteJSONString k @ '':'' @ s) # ts)))"

text \<open>
  The reader of the reference environment: a recursive descent over the text, with a
  counter that bounds the nesting (the length of the text is enough). It reads the texts
  the serialiser above writes, with optional white space; numbers with a fraction or an
  exponent and \<^verbatim>\<open>\u\<close> escapes beyond \<open>0x7F\<close> are outside it and rejected.
\<close>

definition whitespace :: "char \<Rightarrow> bool" where
  "whitespace c = (c = CHR 0x20 \<or> c = CHR 0x09 \<or> c = CHR 0x0A \<or> c = CHR 0x0D)"

definition skip_ws :: "string \<Rightarrow> string" where
  "skip_ws = dropWhile whitespace"

definition is_digit :: "char \<Rightarrow> bool" where
  "is_digit c = (48 \<le> (of_char c :: nat) \<and> (of_char c :: nat) \<le> 57)"

definition hex_value :: "char \<Rightarrow> nat option" where
  "hex_value c =
     (let n = (of_char c :: nat) in
      if 48 \<le> n \<and> n \<le> 57 then Some (n - 48)
      else if 97 \<le> n \<and> n \<le> 102 then Some (n - 87)
      else if 65 \<le> n \<and> n \<le> 70 then Some (n - 55)
      else None)"

definition unescape :: "char \<Rightarrow> char option" where
  "unescape e =
     (if e = CHR 0x22 \<or> e = CHR 0x5C \<or> e = CHR ''/'' then Some e
      else if e = CHR ''b'' then Some (CHR 0x08)
      else if e = CHR ''t'' then Some (CHR 0x09)
      else if e = CHR ''n'' then Some (CHR 0x0A)
      else if e = CHR ''f'' then Some (CHR 0x0C)
      else if e = CHR ''r'' then Some (CHR 0x0D)
      else None)"

fun read_chars :: "string \<Rightarrow> string \<Rightarrow> (string \<times> string) option" where
  "read_chars [] acc = None"
| "read_chars [c] acc = (if c = CHR 0x22 then Some (rev acc, []) else None)"
| "read_chars (c # e # cs) acc =
     (if c = CHR 0x22 then Some (rev acc, e # cs)
      else if c = CHR 0x5C then
        (if e = CHR ''u'' then
           (case map hex_value (take 4 cs) of
              [Some a, Some b, Some x, Some y] \<Rightarrow>
                (if a = 0 \<and> b = 0 \<and> x < 8
                 then read_chars (drop 4 cs) (char_of (16 * x + y) # acc)
                 else None)
            | _ \<Rightarrow> None)
         else (case unescape e of
                 Some u \<Rightarrow> read_chars cs (u # acc)
               | None \<Rightarrow> None))
      else if (of_char c :: nat) < 32 then None
      else read_chars (e # cs) (c # acc))"

definition read_number :: "string \<Rightarrow> (int \<times> string) option" where
  "read_number cs =
     (let neg = (take 1 cs = ''-'');
          body = (if neg then drop 1 cs else cs);
          ds = takeWhile is_digit body;
          rest = dropWhile is_digit body;
          n = foldl (\<lambda>a d. 10 * a + (of_char d - 48)) (0::nat) ds
      in if ds = [] \<or> (1 < length ds \<and> hd ds = CHR ''0'')
            \<or> take 1 rest = ''.'' \<or> take 1 rest = ''e'' \<or> take 1 rest = ''E''
         then None
         else Some (if neg then - int n else int n, rest))"

fun read_value :: "nat \<Rightarrow> string \<Rightarrow> (jsvalue \<times> string) option"
  and read_elements :: "nat \<Rightarrow> string \<Rightarrow> (jsvalue list \<times> string) option"
  and read_members :: "nat \<Rightarrow> string \<Rightarrow> ((string \<times> jsvalue) list \<times> string) option"
where
  "read_value 0 cs = None"
| "read_value (Suc n) cs =
     (let t = skip_ws cs in
      if take 4 t = ''null'' then Some (JNull, drop 4 t)
      else if take 4 t = ''true'' then Some (JBoolean True, drop 4 t)
      else if take 5 t = ''false'' then Some (JBoolean False, drop 5 t)
      else if take 1 t = [CHR 0x22] then
        (case read_chars (drop 1 t) [] of
           Some (s, r) \<Rightarrow> Some (JString s, r)
         | None \<Rightarrow> None)
      else if take 1 t = ''['' then
        (if take 1 (skip_ws (drop 1 t)) = '']''
         then Some (JArray [], drop 1 (skip_ws (drop 1 t)))
         else (case read_elements n (drop 1 t) of
                 Some (vs, r) \<Rightarrow> Some (JArray vs, r)
               | None \<Rightarrow> None))
      else if take 1 t = ''{'' then
        (if take 1 (skip_ws (drop 1 t)) = ''}''
         then Some (JObject [], drop 1 (skip_ws (drop 1 t)))
         else (case read_members n (drop 1 t) of
                 Some (kvs, r) \<Rightarrow> Some (JObject kvs, r)
               | None \<Rightarrow> None))
      else (case read_number t of
              Some (i, r) \<Rightarrow> Some (JNumber i, r)
            | None \<Rightarrow> None))"
| "read_elements 0 cs = None"
| "read_elements (Suc n) cs =
     (case read_value n cs of
        None \<Rightarrow> None
      | Some (v, r) \<Rightarrow>
          (let t = skip_ws r in
           if take 1 t = '','' then
             (case read_elements n (drop 1 t) of
                Some (vs, r') \<Rightarrow> Some (v # vs, r')
              | None \<Rightarrow> None)
           else if take 1 t = '']'' then Some ([v], drop 1 t)
           else None))"
| "read_members 0 cs = None"
| "read_members (Suc n) cs =
     (let t = skip_ws cs in
      if take 1 t = [CHR 0x22] then
        (case read_chars (drop 1 t) [] of
           None \<Rightarrow> None
         | Some (k, r) \<Rightarrow>
             (if take 1 (skip_ws r) = '':'' then
                (case read_value n (drop 1 (skip_ws r)) of
                   None \<Rightarrow> None
                 | Some (v, r') \<Rightarrow>
                     (let t' = skip_ws r' in
                      if take 1 t' = '','' then
                        (case read_members n (drop 1 t') of
                           Some (kvs, r'') \<Rightarrow> Some ((k, v) # kvs, r'')
                         | None \<Rightarrow> None)
                      else if take 1 t' = ''}'' then Some ([(k, v)], drop 1 t')
                      else None))
              else None))
      else None)"

definition reference_parse :: "string \<Rightarrow> exn + jsvalue" where
  "reference_parse text =
     (case read_value (Suc (length text)) text of
        Some (v, r) \<Rightarrow>
          if skip_ws r = [] then Inr v
          else Inl (SyntaxError ''Unexpected non-whitespace character after JSON'')
      | None \<Rightarrow> Inl (SyntaxError ''Unexpected token''))"

definition reference :: "jsvalue runtime" where
  "reference =
     \<lparr> AES_encrypt = reference_encrypt,
       AES_decrypt = reference_decrypt drawn_salt,
       Utf8_stringify = reference_utf8,
       JSON_stringify = SerializeJSONProperty,
       JSON_parse = reference_parse \<rparr>"

text \<open>The representative object of the specification and the address used as passphrase.\<close>

definition representative :: jsvalue where
  "representative =
     JObject [(''a'', JNumber 1), (''b'', JArray [JString ''x'', JString ''y'']), (''c'', JNull)]"

definition user_example :: string where
  "user_example = ''user@example.com''"


section \<open>The task list\<close>

subsection \<open>Rows of the store and their decrypted form\<close>

text \<open>
  The interfaces of \<^verbatim>\<open>lib/supabase.ts\<close>. Both tables have columns \<^verbatim>\<open>id\<close>,
  \<^verbatim>\<open>encrypted_data\<close>, \<^verbatim>\<open>created_at\<close> and \<^verbatim>\<open>updated_at\<close>; the ones of a checklist item
  carry the prefix \<open>item_\<close> here, and the \<^verbatim>\<open>id\<close> of a task is \<open>id'\<close>. The field
  \<^verbatim>\<open>text\<close> is \<open>text'\<close>. The status column holds \<^verbatim>\<open>'pending'\<close> or \<^verbatim>\<open>'completed'\<close>; the
  position of a checklist item is a whole number (an \<^verbatim>\<open>INTEGER\<close> column).

  The object \<^verbatim>\<open>{ ...item, text }\<close> has every property of \<^verbatim>\<open>item\<close> and one more, which is
  what the extension of a record is; likewise \<^verbatim>\<open>{ ...task, description, checklist }\<close>.
\<close>

datatype task_status = Pending | Completed

record ChecklistItem =
  item_id :: string
  task_id :: string
  item_encrypted_data :: string
  completed :: bool
  position :: int
  item_created_at :: string
  item_updated_at :: string

record DecryptedChecklistItem = ChecklistItem +
  text' :: string

record Task =
  id' :: string
  user_id :: string
  title :: string
  jira_ticket_link :: "string option"
  encrypted_data :: string
  status :: task_status
  created_at :: string
  updated_at :: string
  is_today :: bool
  completed_at :: "string option"

text \<open>A row as the query \<^verbatim>\<open>select('*, checklist_items(*)')\<close> returns it.\<close>

record TaskRow = Task +
  checklist_items :: "ChecklistItem list"

record DecryptedTask = TaskRow +
  description :: string
  checklist :: "DecryptedChecklistItem list"

subsection \<open>fetchTasks\<close>

text \<open>
  \<^verbatim>\<open>Array.prototype.map\<close> with a callback that may throw: the first exception ends the
  traversal. In the earlier revision of \<^verbatim>\<open>fetchTasks\<close> the callbacks are \<^verbatim>\<open>async\<close> and
  joined by \<^verbatim>\<open>Promise.all\<close>. The callback for a checklist item contains no \<^verbatim>\<open>await\<close>, so
  awaiting the promise joined from the items throws exactly when one callback threw and
  yields the list of results otherwise; the callback for a row catches every exception
  itself, so the promise joined from the rows always yields the list of their results.
  Since the \<^verbatim>\<open>catch\<close> clause ignores which exception it receives, both revisions compute
  the functions below.
\<close>

fun map_throwing :: "('a \<Rightarrow> exn + 'b) \<Rightarrow> 'a list \<Rightarrow> exn + 'b list" where
  "map_throwing f [] = Inr []"
| "map_throwing f (x # xs) =
     (case f x of
        Inl err \<Rightarrow> Inl err
      | Inr y \<Rightarrow> (case map_throwing f xs of Inl err \<Rightarrow> Inl err | Inr ys \<Rightarrow> Inr (y # ys)))"

text \<open>The callback applied to each checklist item.\<close>

definition decrypt_item :: "'v runtime \<Rightarrow> string \<Rightarrow> ChecklistItem \<Rightarrow> exn + DecryptedChecklistItem" where
  "decrypt_item E email item =
     (case decryptData E (item_encrypted_data item) email of
        Inl err \<Rightarrow> Inl err
      | Inr text \<Rightarrow> Inr (ChecklistItem.extend item (DecryptedChecklistItem.fields text)))"

text \<open>
  The callback applied to each row. \<^verbatim>\<open>sort\<close> orders the array \<^verbatim>\<open>task.checklist_items\<close> in
  place, so from then on the row itself holds the ordered array; the comparator
  \<^verbatim>\<open>a.position - b.position\<close> on whole numbers makes it the stable ascending sort by
  position. \<^verbatim>\<open>task.checklist_items || []\<close> is the array itself, an array being truthy.
\<close>

definition decrypt_task :: "'v runtime \<Rightarrow> string \<Rightarrow> TaskRow \<Rightarrow> DecryptedTask" where
  "decrypt_task E email task =
     (case decryptData E (encrypted_data task) email of
        Inl err \<Rightarrow>
          TaskRow.extend task (DecryptedTask.fields ''[Decryption failed]'' [])
      | Inr description' \<Rightarrow>
          (let task = task\<lparr>checklist_items := sort_key position (checklist_items task)\<rparr> in
           case map_throwing (decrypt_item E email) (checklist_items task) of
             Inl err \<Rightarrow>
               TaskRow.extend task (DecryptedTask.fields ''[Decryption failed]'' [])
           | Inr checklist' \<Rightarrow>
               TaskRow.extend task (DecryptedTask.fields description' checklist')))"

text \<open>
  The state of the component and the answer of the store to the query. \<^verbatim>\<open>fetchTasks\<close>
  returns at once without a signed-in address; an error of the query is caught and
  leaves the tasks as they were; otherwise the rows (\<^verbatim>\<open>data || []\<close>) are decrypted one
  by one.
\<close>

record TaskList_state =
  tasks :: "DecryptedTask list"
  loading :: bool

record query_response =
  response_data :: "TaskRow list option"
  response_error :: "exn option"

definition fetchTasks ::
  "'v runtime \<Rightarrow> string option \<Rightarrow> query_response \<Rightarrow> TaskList_state \<Rightarrow> TaskList_state" where
  "fetchTasks E user_email response st =
     (case user_email of
        None \<Rightarrow> st
      | Some email \<Rightarrow>
          if email = [] then st
          else (case response_error response of
                  Some err \<Rightarrow> st\<lparr>loading := False\<rparr>
                | None \<Rightarrow>
                    st\<lparr>tasks := map (decrypt_task E email)
                                   (case response_data response of None \<Rightarrow> [] | Some rows \<Rightarrow> rows),
                       loading := False\<rparr>))"

text \<open>
  A row is readable under an address when its description and every one of its checklist
  entries decrypt.
\<close>

definition decrypts :: "'v runtime \<Rightarrow> string \<Rightarrow> string \<Rightarrow> bool" where
  "decrypts E email c = (\<not> isl (decryptData E c email))"

definition readable :: "'v runtime \<Rightarrow> string \<Rightarrow> TaskRow \<Rightarrow> bool" where
  "readable E email task =
     (decrypts E email (encrypted_data task) \<and>
      list_all (\<lambda>item. decrypts E email (item_encrypted_data item)) (checklist_items task))"

subsection \<open>toggleTaskStatus\<close>

text \<open>
  The object passed to \<^verbatim>\<open>update\<close>, with the \<^verbatim>\<open>id\<close> the request is restricted to, and what
  one call of \<^verbatim>\<open>toggleTaskStatus\<close> does in the earlier revision (\<^verbatim>\<open>TaskItem.tsx\<close>): nothing
  without a signed-in address, otherwise one request and, when the store reports no
  error, the call of \<^verbatim>\<open>onUpdate\<close> (the flag of the result). \<open>now\<close> is
  \<^verbatim>\<open>new Date().toISOString()\<close>; the \<^verbatim>\<open>loading\<close> flag of the component is left out.
\<close>

record status_update =
  set_status :: task_status
  set_completed_at :: "string option"

datatype toggle_effect =
    NotSignedIn
  | Requested status_update string bool

definition toggleTaskStatus ::
  "string \<Rightarrow> string option \<Rightarrow> exn option \<Rightarrow> DecryptedTask \<Rightarrow> toggle_effect" where
  "toggleTaskStatus now user_email store_error task =
     (if user_email = None \<or> user_email = Some [] then NotSignedIn
      else
        (let newStatus = (if status task = Pending then Completed else Pending) in
         Requested
           \<lparr> set_status = newStatus,
             set_completed_at = (if newStatus = Completed then Some now else None) \<rparr>
           (id' task)
           (store_error = None)))"

text \<open>
  The later revision updates the list held by \<^verbatim>\<open>TaskList\<close> before the request
  (\<^verbatim>\<open>handleTaskStatusChange\<close>) and restores the former values when the store reports an
  error. It returns the list and the request sent, if any.
\<close>

definition handleTaskStatusChange ::
  "string \<Rightarrow> task_status \<Rightarrow> string option \<Rightarrow> DecryptedTask list \<Rightarrow> DecryptedTask list" where
  "handleTaskStatusChange taskId newStatus completedAt prev =
     map (\<lambda>t. if id' t = taskId then t\<lparr>status := newStatus, completed_at := completedAt\<rparr> else t)
       prev"

definition toggleTaskStatus_optimistic ::
  "string \<Rightarrow> string option \<Rightarrow> exn option \<Rightarrow> DecryptedTask \<Rightarrow> DecryptedTask list
     \<Rightarrow> DecryptedTask list \<times> (status_update \<times> string) option" where
  "toggleTaskStatus_optimistic now user_email store_error task prev =
     (if user_email = None \<or> user_email = Some [] then (prev, None)
      else
        (let newStatus = (if status task = Pending then Completed else Pending);
             completedAt = (if newStatus = Completed then Some now else None);
             shown = handleTaskStatusChange (id' task) newStatus completedAt prev;
             request = (\<lparr> set_status = newStatus, set_completed_at = completedAt \<rparr>, id' task)
         in case store_error of
              None \<Rightarrow> (shown, Some request)
            | Some err \<Rightarrow>
                (handleTaskStatusChange (id' task) (status task) (completed_at task) shown,
                 Some request)))"

text \<open>Status and completion time agree when the time is present exactly for a completed task.\<close>

definition coupled :: "task_status \<Rightarrow> string option \<Rightarrow> bool" where
  "coupled st at = ((at \<noteq> None) = (st = Completed))"


section \<open>Sample data\<close>

text \<open>
  Concrete inputs for the reference environment: a text with a character outside ASCII
  (its last two bytes encode one character), the ciphertext \<open>sealed s\<close> that
  \<^verbatim>\<open>encryptData\<close> makes of \<open>s\<close> under the example address with the salt \<^verbatim>\<open>saltsalt\<close>, the
  JSON text of the representative object, an object with a member that has no JSON
  form, and a ciphertext that lost its last byte.
\<close>

definition cafe :: string where
  "cafe = [CHR ''c'', CHR ''a'', CHR ''f'', CHR 0xC3, CHR 0xA9]"

definition sealed :: "string \<Rightarrow> string" where
  "sealed s = projr (encryptData reference ''saltsalt'' (Some s) user_example)"

definition representative_json :: string where
  \<open>representative_json = ''{"a":1,"b":["x","y"],"c":null}''\<close>

definition dropped_member :: jsvalue where
  "dropped_member = JObject [(''f'', JFunction)]"

definition cut_short :: string where
  "cut_short = butlast (sealed cafe)"

text \<open>An environment whose library throws whenever it is asked to decrypt.\<close>

definition faulty :: "jsvalue runtime" where
  "faulty = reference\<lparr> AES_decrypt := \<lambda>c p. Inl (TypeError ''fault of the library'') \<rparr>"

text \<open>
  Three rows as the store may return them. The first is readable and holds its checklist
  in descending order of position; the description of the second and one checklist entry
  of the third are ciphertexts of the empty text, which \<^verbatim>\<open>decryptData\<close> does not return.
\<close>

definition sample_item :: "string \<Rightarrow> int \<Rightarrow> string \<Rightarrow> ChecklistItem" where
  "sample_item i n c =
     \<lparr> item_id = i, task_id = ''t1'', item_encrypted_data = c, completed = False,
       position = n, item_created_at = ''2024-01-01'', item_updated_at = ''2024-01-01'' \<rparr>"

definition sample_row :: "string \<Rightarrow> string \<Rightarrow> ChecklistItem list \<Rightarrow> TaskRow" where
  "sample_row i c items =
     \<lparr> id' = i, user_id = ''u1'', title = ''Shopping'', jira_ticket_link = None,
       encrypted_data = c, status = Pending, created_at = ''2024-01-01'',
       updated_at = ''2024-01-01'', is_today = True, completed_at = None,
       checklist_items = items \<rparr>"

definition sample_rows :: "TaskRow list" where
  "sample_rows =
     [ sample_row ''t1'' (sealed ''milk'')
         [sample_item ''i2'' 1 (sealed ''pay''), sample_item ''i1'' 0 (sealed ''go'')],
       sample_row ''t2'' (sealed []) [sample_item ''i3'' 0 (sealed ''ok'')],
       sample_row ''t3'' (sealed ''eggs'')
         [sample_item ''i4'' 0 (sealed ''a''), sample_item ''i5'' 1 (sealed [])] ]"

definition sample_response :: query_response where
  "sample_response = \<lparr> response_data = Some sample_rows, response_error = None \<rparr>"

definition initial_state :: TaskList_state where
  "initial_state = \<lparr> tasks = [], loading = True \<rparr>"

definition sample_shown :: "DecryptedTask list" where
  "sample_shown = tasks (fetchTasks reference (Some user_example) sample_response initial_state)"

text \<open>A pending task as the list shows it, the time of a toggle, and the list after it.\<close>

definition sample_task :: DecryptedTask where
  "sample_task =
     TaskRow.extend (sample_row ''t1'' (sealed ''milk'') []) (DecryptedTask.fields ''milk'' [])"

definition sample_now :: string where
  "sample_now = ''2024-05-01T10:00:00.000Z''"

definition sample_toggled :: "DecryptedTask list" where
  "sample_toggled =
     fst (toggleTaskStatus_optimistic sample_now (Some user_example) None sample_task
            [sample_task])"

section \<open>Properties of the codec\<close>

subsection \<open>What decryptData returns\<close>

text \<open>
  \<^verbatim>\<open>decryptData\<close> returns the text the library recovers when there is one and it is not
  empty, and fails with its one error in every other case.
\<close>

lemma decryptData_decodes:
  "decryptData E c p =
     (case primitive_decodes E c p of
        None \<Rightarrow> Inl DecryptionError
      | Some t \<Rightarrow> if t = [] then Inl DecryptionError else Inr t)"
  by (simp add: decryptData_def primitive_decodes_def DecryptionError_def split: sum.splits)

lemma decryptData_not_empty: "decryptData E c p \<noteq> Inr []"
  by (simp add: decryptData_decodes split: option.splits)

lemma decryptData_error: "decryptData E c p = Inl e \<Longrightarrow> e = DecryptionError"
  by (simp add: decryptData_decodes split: option.splits if_splits)

lemma encryptData_roundtrip:
  assumes "primitive_roundtrip E salt s p"
  shows "\<exists>c. encryptData E salt (Some s) p = Inr c \<and> primitive_decodes E c p = Some s"
  using assms
  by (auto simp: primitive_roundtrip_def encryptData_def primitive_decodes_def split: sum.splits)

lemma decrypt_encrypt:
  assumes "primitive_roundtrip E salt s p"
  shows "\<not> isl (encryptData E salt (Some s) p)"
    and "decryptData E (projr (encryptData E salt (Some s) p)) p =
           (if s = [] then Inl DecryptionError else Inr s)"
proof -
  from encryptData_roundtrip [OF assms] obtain c
    where c: "encryptData E salt (Some s) p = Inr c" "primitive_decodes E c p = Some s"
    by blast
  show "\<not> isl (encryptData E salt (Some s) p)" by (simp add: c)
  show "decryptData E (projr (encryptData E salt (Some s) p)) p =
           (if s = [] then Inl DecryptionError else Inr s)"
    by (simp add: c decryptData_decodes)
qed

text \<open>
  Under any passphrase, \<^verbatim>\<open>decryptData\<close> returns a given text exactly when the text is not
  empty and the library recovers it: the codec compares no keys itself.
\<close>

lemma decryptData_returns_iff:
  "decryptData E c p = Inr s \<longleftrightarrow> s \<noteq> [] \<and> primitive_decodes E c p = Some s"
  by (auto simp: decryptData_decodes split: option.splits if_splits)

subsection \<open>The reference environment round-trips\<close>

lemma shift_mod:
  fixes a k :: nat
  assumes "a < 256" and "k < 256"
  shows "((a + k) mod 256 + (256 - k)) mod 256 = a"
proof (cases "a + k < 256")
  case True
  then have "(a + k) mod 256 + (256 - k) = a + 256" using assms by simp
  then show ?thesis using assms by simp
next
  case False
  then have "(a + k) mod 256 = a + k - 256" using assms
    by (simp add: mod_if)
  then have "(a + k) mod 256 + (256 - k) = a" using assms False by simp
  then show ?thesis using assms by simp
qed

lemma shift_char_inverse:
  assumes "k < 256"
  shows "char_of (of_char (char_of (of_char c + k :: nat) :: char) + (256 - k) :: nat) = c"
proof -
  have a: "(of_char (char_of (of_char c + k :: nat) :: char) :: nat) = (of_char c + k) mod 256"
    by simp
  have lt: "(of_char c :: nat) < 256" by simp
  have "char_of ((of_char c + k) mod 256 + (256 - k) :: nat)
          = char_of (((of_char c + k) mod 256 + (256 - k)) mod 256 :: nat)"
    by (simp only: char_of_mod_256)
  also have "\<dots> = char_of (of_char c :: nat)"
    by (simp only: shift_mod [OF lt assms])
  finally show ?thesis by (simp only: a char_of_char)
qed

lemma shift_bytes_inverse:
  assumes "k < 256"
  shows "shift_bytes (256 - k) (shift_bytes k s) = s"
proof (induction s)
  case Nil
  show ?case by (simp add: shift_bytes_def)
next
  case (Cons c s)
  then show ?case
    by (simp only: shift_bytes_def list.map shift_char_inverse [OF assms])
qed

lemma key_byte_less: "key_byte p salt < 256"
  by (simp add: key_byte_def)

lemma reference_decrypt_encrypt:
  assumes "length salt = 8"
  shows "reference_decrypt drawn (''Salted__'' @ salt @ shift_bytes (key_byte p salt) s) p
           = Inr s"
proof -
  let ?c = "''Salted__'' @ salt @ shift_bytes (key_byte p salt) s"
  have m: "length ''Salted__'' = 8" by simp
  have t: "take 8 ?c = ''Salted__''" using m by (simp only: take_append) simp
  have d: "drop 8 ?c = salt @ shift_bytes (key_byte p salt) s"
    using m by (metis append_eq_conv_conj)
  have s8: "take 8 (drop 8 ?c) = salt" unfolding d using assms by simp
  have d16: "drop 16 ?c = shift_bytes (key_byte p salt) s"
  proof -
    have "drop 16 ?c = drop 8 (drop 8 ?c)" by simp
    also have "\<dots> = shift_bytes (key_byte p salt) s" unfolding d using assms by simp
    finally show ?thesis .
  qed
  show ?thesis
    unfolding reference_decrypt_def
    by (simp only: t s8 d16 shift_bytes_inverse [OF key_byte_less]) simp
qed

text \<open>
  With a salt of eight bytes the reference environment round-trips every well-formed
  text under every passphrase, the empty text and the empty passphrase included.
\<close>

lemma reference_roundtrip:
  assumes "length salt = 8" and "utf8_wellformed (map of_char s)"
  shows "primitive_roundtrip reference salt s p"
  using assms reference_decrypt_encrypt [OF assms(1), of drawn_salt p s]
  by (simp add: primitive_roundtrip_def reference_def reference_encrypt_def reference_utf8_def)

lemma sealed_decrypts:
  assumes "utf8_wellformed (map of_char s)" and "s \<noteq> []"
  shows "decryptData reference (sealed s) user_example = Inr s"
proof -
  have "primitive_roundtrip reference ''saltsalt'' s user_example"
    by (rule reference_roundtrip) (simp_all add: assms)
  from decrypt_encrypt(2) [OF this] assms(2) show ?thesis by (simp add: sealed_def)
qed

lemma sealed_empty_rejected: "decryptData reference (sealed []) user_example = Inl DecryptionError"
proof -
  have "primitive_roundtrip reference ''saltsalt'' [] user_example"
    by (rule reference_roundtrip) simp_all
  from decrypt_encrypt(2) [OF this] show ?thesis by (simp add: sealed_def)
qed

lemma sealed_eq:
  "sealed s = ''Salted__'' @ ''saltsalt'' @ shift_bytes (key_byte user_example ''saltsalt'') s"
  by (simp add: sealed_def encryptData_def reference_def reference_encrypt_def)

lemma cut_short_decrypts:
  "AES_decrypt reference cut_short user_example = Inr (butlast cafe)"
proof -
  let ?k = "key_byte user_example ''saltsalt''"
  have n: "shift_bytes ?k cafe \<noteq> []" by (simp add: shift_bytes_def cafe_def)
  have "cut_short = ''Salted__'' @ ''saltsalt'' @ shift_bytes ?k (butlast cafe)"
    unfolding cut_short_def sealed_eq using n
    by (simp only: butlast_append append_is_Nil_conv if_False shift_bytes_def map_butlast) simp
  then show ?thesis
    using reference_decrypt_encrypt [of "''saltsalt''" drawn_salt user_example "butlast cafe"]
    by (simp add: reference_def)
qed

lemma wellformed_samples:
  "utf8_wellformed (map of_char ''milk'')"
  "utf8_wellformed (map of_char ''pay'')"
  "utf8_wellformed (map of_char ''go'')"
  "utf8_wellformed (map of_char ''eggs'')"
  "utf8_wellformed (map of_char ''a'')"
  "utf8_wellformed (map of_char ''ok'')"
  "utf8_wellformed (map of_char ''not json'')"
  "utf8_wellformed (map of_char cafe)"
  "utf8_wellformed (map of_char representative_json)"
  by code_simp+

subsection \<open>Round trip of a text\<close>

text \<open>
  Claim C1, as the code has it: for every non-empty text \<open>s\<close>, of any length and with any
  characters, and every passphrase \<open>p\<close> under which the library itself round-trips \<open>s\<close>,
  \<^verbatim>\<open>encryptData(s, p)\<close> succeeds and \<^verbatim>\<open>decryptData\<close> of its result under \<open>p\<close> returns \<open>s\<close>.
\<close>

theorem roundtrip_nonempty:
  assumes "primitive_roundtrip E salt s p" and "s \<noteq> []"
  shows "\<not> isl (encryptData E salt (Some s) p) \<and>
         decryptData E (projr (encryptData E salt (Some s) p)) p = Inr s"
  using decrypt_encrypt [OF assms(1)] assms(2) by simp

theorem roundtrip_nonempty_witness:
  "primitive_roundtrip reference ''saltsalt'' cafe user_example \<and> cafe \<noteq> [] \<and>
   \<not> isl (encryptData reference ''saltsalt'' (Some cafe) user_example) \<and>
   decryptData reference (projr (encryptData reference ''saltsalt'' (Some cafe) user_example))
     user_example = Inr cafe"
proof -
  have h: "primitive_roundtrip reference ''saltsalt'' cafe user_example"
    by (rule reference_roundtrip) (simp_all add: wellformed_samples)
  have n: "cafe \<noteq> []" by (simp add: cafe_def)
  from roundtrip_nonempty [OF h n] h n show ?thesis by simp
qed

text \<open>
  Claim C1 as stated includes the empty text. There the round trip fails: the library
  round-trips the empty text under the non-empty passphrase, \<^verbatim>\<open>encryptData\<close> returns a
  ciphertext, and \<^verbatim>\<open>decryptData\<close> of it throws.
\<close>

theorem roundtrip_empty_counterexample:
  "user_example \<noteq> [] \<and>
   primitive_roundtrip reference ''saltsalt'' [] user_example \<and>
   encryptData reference ''saltsalt'' (Some []) user_example = Inr ''Salted__saltsalt'' \<and>
   decryptData reference ''Salted__saltsalt'' user_example = Inl DecryptionError"
  by code_simp

subsection \<open>The empty text\<close>

text \<open>
  Claim C2: whenever the library decodes a ciphertext to the empty text,
  \<^verbatim>\<open>decryptData\<close> throws its error although the library reported success; so
  \<^verbatim>\<open>decryptData\<close> never returns the empty text, in particular not for the ciphertext that
  \<^verbatim>\<open>encryptData\<close> made of the empty text.
\<close>

theorem empty_decode_is_failure:
  "(primitive_decodes E c p = Some [] \<longrightarrow> decryptData E c p = Inl DecryptionError) \<and>
   decryptData E c p \<noteq> Inr [] \<and>
   decryptData E (projr (encryptData E salt (Some []) p)) p \<noteq> Inr []"
  by (simp add: decryptData_not_empty) (simp add: decryptData_decodes)

theorem empty_decode_is_failure_witness:
  "primitive_decodes reference ''Salted__saltsalt'' user_example = Some [] \<and>
   decryptData reference ''Salted__saltsalt'' user_example = Inl DecryptionError"
proof -
  have h: "primitive_decodes reference ''Salted__saltsalt'' user_example = Some []"
    by code_simp
  from empty_decode_is_failure [of reference "''Salted__saltsalt''" user_example] h
  show ?thesis by blast
qed

subsection \<open>Fresh ciphertexts\<close>




subsection \<open>Inputs that are not ciphertexts\<close>

text \<open>
  Claim C5, as the code has it: for every input and passphrase the only failure of
  \<^verbatim>\<open>decryptData\<close> is its own error, so nothing the library throws reaches the caller. It
  fails with that error when the library throws while decrypting, when the decrypted
  bytes are not UTF-8 and when the decoded text is empty; and it returns every non-empty
  text the library decodes, having no test of its own for what a ciphertext is.
\<close>

theorem decryptData_failure_is_typed:
  "(\<forall>e. decryptData E c p = Inl e \<longrightarrow> e = DecryptionError) \<and>
   (AES_decrypt E c1 p = Inl x \<longrightarrow> decryptData E c1 p = Inl DecryptionError) \<and>
   (AES_decrypt E c2 p = Inr w2 \<longrightarrow> Utf8_stringify E w2 = Inl y \<longrightarrow>
      decryptData E c2 p = Inl DecryptionError) \<and>
   (AES_decrypt E c3 p = Inr w3 \<longrightarrow> Utf8_stringify E w3 = Inr [] \<longrightarrow>
      decryptData E c3 p = Inl DecryptionError) \<and>
   (AES_decrypt E c4 p = Inr w4 \<longrightarrow> Utf8_stringify E w4 = Inr t \<longrightarrow> t \<noteq> [] \<longrightarrow>
      decryptData E c4 p = Inr t)"
proof -
  have "\<forall>e. decryptData E c p = Inl e \<longrightarrow> e = DecryptionError"
    using decryptData_error [of E c p] by blast
  then show ?thesis
    by (simp add: decryptData_def DecryptionError_def)
qed

theorem decryptData_failure_is_typed_witness:
  "AES_decrypt faulty (sealed ''milk'') user_example = Inl (TypeError ''fault of the library'') \<and>
   decryptData faulty (sealed ''milk'') user_example = Inl DecryptionError \<and>
   AES_decrypt reference cut_short user_example = Inr (butlast cafe) \<and>
   Utf8_stringify reference (butlast cafe) = Inl (Error ''Malformed UTF-8 data'') \<and>
   decryptData reference cut_short user_example = Inl DecryptionError \<and>
   AES_decrypt reference (sealed []) user_example = Inr [] \<and>
   Utf8_stringify reference [] = Inr [] \<and>
   decryptData reference (sealed []) user_example = Inl DecryptionError \<and>
   AES_decrypt reference (sealed ''milk'') user_example = Inr ''milk'' \<and>
   Utf8_stringify reference ''milk'' = Inr ''milk'' \<and>
   decryptData reference (sealed ''milk'') user_example = Inr ''milk''"
proof -
  have f: "AES_decrypt faulty (sealed ''milk'') user_example
             = Inl (TypeError ''fault of the library'')"
    by (simp add: faulty_def)
  have a2: "AES_decrypt reference cut_short user_example = Inr (butlast cafe)"
    by (rule cut_short_decrypts)
  have u2: "Utf8_stringify reference (butlast cafe) = Inl (Error ''Malformed UTF-8 data'')"
    by code_simp
  have a3: "AES_decrypt reference (sealed []) user_example = Inr []"
    using reference_decrypt_encrypt [of "''saltsalt''" drawn_salt user_example "[]"]
    by (simp add: sealed_eq reference_def)
  have u3: "Utf8_stringify reference [] = Inr []"
    by (simp add: reference_def reference_utf8_def)
  have a4: "AES_decrypt reference (sealed ''milk'') user_example = Inr ''milk''"
    using reference_decrypt_encrypt [of "''saltsalt''" drawn_salt user_example "''milk''"]
    by (simp add: sealed_eq reference_def)
  have u4: "Utf8_stringify reference ''milk'' = Inr ''milk''"
    by (simp add: reference_def reference_utf8_def wellformed_samples)
  have n: "''milk'' \<noteq> []" by simp
  from decryptData_failure_is_typed [of faulty _ user_example "sealed ''milk''"] f
  have r1: "decryptData faulty (sealed ''milk'') user_example = Inl DecryptionError"
    by blast
  from decryptData_failure_is_typed [of reference _ user_example _ _ cut_short "butlast cafe"
      "Error ''Malformed UTF-8 data''" "sealed []" "[]" "sealed ''milk''" "''milk''" "''milk''"]
    a2 u2 a3 u3 a4 u4 n
  have "decryptData reference cut_short user_example = Inl DecryptionError \<and>
        decryptData reference (sealed []) user_example = Inl DecryptionError \<and>
        decryptData reference (sealed ''milk'') user_example = Inr ''milk''"
    by blast
  with f r1 a2 u2 a3 u3 a4 u4 show ?thesis by simp
qed

text \<open>
  Claim C5 as stated has \<^verbatim>\<open>decryptData\<close> fail for every input that is not a ciphertext.
  The string \<^verbatim>\<open>not-valid-ciphertext\<close> carries no salt; with the salt drawn in this
  environment the library decodes it to a non-empty text, and \<^verbatim>\<open>decryptData\<close> returns
  that text.
\<close>

theorem decryptData_garbage_counterexample:
  "take 8 ''not-valid-ciphertext'' \<noteq> ''Salted__'' \<and>
   decryptData reference ''not-valid-ciphertext'' user_example = Inr ''opu.wbmje.djqifsufyu''"
proof -
  have k: "key_byte user_example drawn_salt = 255" by code_simp
  have sh: "shift_bytes (256 - key_byte user_example drawn_salt) ''not-valid-ciphertext''
              = ''opu.wbmje.djqifsufyu''"
    unfolding k by code_simp
  have w: "utf8_wellformed (map of_char ''opu.wbmje.djqifsufyu'')" by code_simp
  have m: "take 8 ''not-valid-ciphertext'' \<noteq> ''Salted__''" by simp
  have "AES_decrypt reference ''not-valid-ciphertext'' user_example
          = Inr ''opu.wbmje.djqifsufyu''"
    using m by (simp only: reference_def reference_decrypt_def runtime.simps if_False sh)
  moreover have "Utf8_stringify reference ''opu.wbmje.djqifsufyu''
                   = Inr ''opu.wbmje.djqifsufyu''"
    using w by (simp add: reference_def reference_utf8_def)
  ultimately have "decryptData reference ''not-valid-ciphertext'' user_example
                     = Inr ''opu.wbmje.djqifsufyu''"
    by (simp add: decryptData_def)
  with m show ?thesis by simp
qed

subsection \<open>Errors of the object functions\<close>

text \<open>
  Claim C6, as the code has it: \<^verbatim>\<open>encryptObject\<close> lets whatever \<^verbatim>\<open>JSON.stringify\<close> throws
  pass unchanged and otherwise encrypts what \<^verbatim>\<open>JSON.stringify\<close> returns, so a member that
  \<^verbatim>\<open>JSON.stringify\<close> leaves out raises nothing; \<^verbatim>\<open>decryptObject\<close> fails with the error of
  \<^verbatim>\<open>decryptData\<close> when the decryption fails, and with the \<^verbatim>\<open>SyntaxError\<close> of \<^verbatim>\<open>JSON.parse\<close>,
  which is a different error, when the decrypted text is not JSON.
\<close>

theorem object_mode_errors:
  "(JSON_stringify E obj1 = Inl e \<longrightarrow> encryptObject E salt obj1 p = Inl e) \<and>
   (JSON_stringify E obj2 = Inr j \<longrightarrow> encryptObject E salt obj2 p = encryptData E salt j p) \<and>
   (isl (decryptData E c1 p) \<longrightarrow> decryptObject E c1 p = Inl DecryptionError) \<and>
   (decryptData E c2 p = Inr t \<longrightarrow> JSON_parse E t = Inl (SyntaxError m) \<longrightarrow>
      decryptObject E c2 p = Inl (SyntaxError m) \<and> SyntaxError m \<noteq> DecryptionError)"
proof -
  have "isl (decryptData E c1 p) \<longrightarrow> decryptObject E c1 p = Inl DecryptionError"
    using decryptData_error [of E c1 p]
    by (cases "decryptData E c1 p") (simp_all add: decryptObject_def)
  then show ?thesis
    by (simp add: encryptObject_def decryptObject_def DecryptionError_def)
qed

theorem object_mode_errors_witness:
  "JSON_stringify reference (JArray [JBigInt 1])
     = Inl (TypeError ''Do not know how to serialize a BigInt'') \<and>
   encryptObject reference ''saltsalt'' (JArray [JBigInt 1]) user_example
     = Inl (TypeError ''Do not know how to serialize a BigInt'') \<and>
   JSON_stringify reference dropped_member = Inr (Some ''{}'') \<and>
   encryptObject reference ''saltsalt'' dropped_member user_example
     = encryptData reference ''saltsalt'' (Some ''{}'') user_example \<and>
   isl (decryptData reference (sealed []) user_example) \<and>
   decryptObject reference (sealed []) user_example = Inl DecryptionError \<and>
   decryptData reference (sealed ''not json'') user_example = Inr ''not json'' \<and>
   JSON_parse reference ''not json'' = Inl (SyntaxError ''Unexpected token'') \<and>
   decryptObject reference (sealed ''not json'') user_example
     = Inl (SyntaxError ''Unexpected token'')"
proof -
  have h1: "JSON_stringify reference (JArray [JBigInt 1])
              = Inl (TypeError ''Do not know how to serialize a BigInt'')" by code_simp
  have h2: "JSON_stringify reference dropped_member = Inr (Some ''{}'')" by code_simp
  have h3: "isl (decryptData reference (sealed []) user_example)"
    by (simp add: sealed_empty_rejected)
  have h4: "decryptData reference (sealed ''not json'') user_example = Inr ''not json''"
    by (simp add: sealed_decrypts wellformed_samples)
  have h5: "JSON_parse reference ''not json'' = Inl (SyntaxError ''Unexpected token'')"
    by code_simp
  from object_mode_errors [of reference "JArray [JBigInt 1]"
      "TypeError ''Do not know how to serialize a BigInt''" "''saltsalt''" user_example
      dropped_member "Some ''{}''" "sealed []" "sealed ''not json''"
      "''not json''" "''Unexpected token''"]
    h1 h2 h3 h4 h5
  show ?thesis by simp
qed

text \<open>
  Claim C6 as stated has \<^verbatim>\<open>encryptObject\<close> fail for a value with a member of an unsupported
  type. For an object whose only member is a function, \<^verbatim>\<open>JSON.stringify\<close> returns the text
  of the empty object and \<^verbatim>\<open>encryptObject\<close> returns the ciphertext of that text.
\<close>

theorem object_mode_errors_counterexample:
  "JSON_stringify reference dropped_member = Inr (Some ''{}'') \<and>
   encryptObject reference ''saltsalt'' dropped_member user_example
     = encryptData reference ''saltsalt'' (Some ''{}'') user_example \<and>
   \<not> isl (encryptObject reference ''saltsalt'' dropped_member user_example)"
  by code_simp

subsection \<open>Round trip of an object\<close>

text \<open>
  Claim C7: for every object \<open>obj\<close> that \<^verbatim>\<open>JSON.stringify\<close> turns into a non-empty text which
  \<^verbatim>\<open>JSON.parse\<close> reads back as \<open>obj\<close>, and every passphrase under which the library
  round-trips that text, \<^verbatim>\<open>decryptObject(encryptObject(obj, p), p)\<close> succeeds and equals
  \<open>obj\<close>; the representative object under the example address is the witness.
\<close>

theorem object_roundtrip:
  assumes "JSON_stringify E obj = Inr (Some j)" and "j \<noteq> []"
    and "JSON_parse E j = Inr obj" and "primitive_roundtrip E salt j p"
  shows "\<not> isl (encryptObject E salt obj p) \<and>
         decryptObject E (projr (encryptObject E salt obj p)) p = Inr obj"
proof -
  have e: "encryptObject E salt obj p = encryptData E salt (Some j) p"
    by (simp add: encryptObject_def assms(1))
  from decrypt_encrypt [OF assms(4)] assms(2,3) show ?thesis
    by (simp add: e decryptObject_def)
qed

theorem object_roundtrip_witness:
  "JSON_stringify reference representative = Inr (Some representative_json) \<and>
   representative_json \<noteq> [] \<and>
   JSON_parse reference representative_json = Inr representative \<and>
   primitive_roundtrip reference ''saltsalt'' representative_json user_example \<and>
   \<not> isl (encryptObject reference ''saltsalt'' representative user_example) \<and>
   decryptObject reference
     (projr (encryptObject reference ''saltsalt'' representative user_example)) user_example
     = Inr representative"
proof -
  have h1: "JSON_stringify reference representative = Inr (Some representative_json)"
    by code_simp
  have h2: "representative_json \<noteq> []" by (simp add: representative_json_def)
  have h3: "JSON_parse reference representative_json = Inr representative" by code_simp
  have h4: "primitive_roundtrip reference ''saltsalt'' representative_json user_example"
    by (rule reference_roundtrip) (simp_all add: wellformed_samples)
  from object_roundtrip [OF h1 h2 h3 h4] h1 h2 h3 h4 show ?thesis by simp
qed

section \<open>Properties of the task list\<close>

subsection \<open>Decrypting one row\<close>

text \<open>
  A traversal with a throwing callback succeeds exactly when the callback succeeds on
  every element, and then returns the results in the order of the elements.
\<close>

lemma map_throwing_Inr:
  "map_throwing f xs = Inr ys \<longleftrightarrow>
     list_all (\<lambda>x. \<not> isl (f x)) xs \<and> ys = map (\<lambda>x. projr (f x)) xs"
proof (induction xs arbitrary: ys)
  case Nil
  show ?case by auto
next
  case (Cons x xs)
  show ?case
  proof (cases "f x")
    case (Inl e)
    then show ?thesis by simp
  next
    case (Inr y)
    show ?thesis
    proof (cases "map_throwing f xs")
      case (Inl e)
      with Cons.IH [of "map (\<lambda>x. projr (f x)) xs"]
      have "\<not> list_all (\<lambda>x. \<not> isl (f x)) xs" by auto
      with Inl Inr show ?thesis by simp
    next
      case r: (Inr zs)
      with Cons.IH [of zs] Inr show ?thesis by auto
    qed
  qed
qed

lemma map_throwing_isl:
  "isl (map_throwing f xs) \<longleftrightarrow> \<not> list_all (\<lambda>x. \<not> isl (f x)) xs"
proof (cases "map_throwing f xs")
  case (Inl e)
  then show ?thesis using map_throwing_Inr [of f xs "map (\<lambda>x. projr (f x)) xs"] by auto
next
  case (Inr ys)
  then show ?thesis using map_throwing_Inr [of f xs ys] by auto
qed

lemma decrypt_item_isl:
  "isl (decrypt_item E email item) = (\<not> decrypts E email (item_encrypted_data item))"
  by (simp add: decrypt_item_def decrypts_def split: sum.splits)

lemma decrypt_item_projr:
  assumes "decrypts E email (item_encrypted_data item)"
  shows "ChecklistItem.truncate (projr (decrypt_item E email item)) = item"
    and "position (projr (decrypt_item E email item)) = position item"
    and "text' (projr (decrypt_item E email item))
           = projr (decryptData E (item_encrypted_data item) email)"
  using assms
  by (cases "decryptData E (item_encrypted_data item) email";
      simp add: decrypt_item_def decrypts_def ChecklistItem.defs DecryptedChecklistItem.defs)+

lemma list_all_sort_key: "list_all P (sort_key f xs) = list_all P xs"
  by (simp add: list_all_iff)

text \<open>The columns of the row are shown as they are, readable or not.\<close>

lemma decrypt_task_columns: "Task.truncate (decrypt_task E email task) = Task.truncate task"
  by (simp add: decrypt_task_def Let_def Task.defs TaskRow.defs DecryptedTask.defs
      split: sum.splits)

lemma decrypt_task_unreadable:
  assumes "\<not> readable E email task"
  shows "description (decrypt_task E email task) = ''[Decryption failed]'' \<and>
         checklist (decrypt_task E email task) = []"
proof (cases "decryptData E (encrypted_data task) email")
  case (Inl e)
  then show ?thesis by (simp add: decrypt_task_def TaskRow.defs DecryptedTask.defs)
next
  case (Inr d)
  let ?items = "sort_key position (checklist_items task)"
  from Inr assms
  have "\<not> list_all (\<lambda>item. decrypts E email (item_encrypted_data item)) (checklist_items task)"
    by (simp add: readable_def decrypts_def)
  then have "isl (map_throwing (decrypt_item E email) ?items)"
    by (simp add: map_throwing_isl decrypt_item_isl list_all_sort_key)
  then obtain e where "map_throwing (decrypt_item E email) ?items = Inl e"
    by (cases "map_throwing (decrypt_item E email) ?items") simp_all
  with Inr show ?thesis by (simp add: decrypt_task_def TaskRow.defs DecryptedTask.defs)
qed

lemma decrypt_task_readable:
  assumes "readable E email task"
  shows "description (decrypt_task E email task)
           = projr (decryptData E (encrypted_data task) email)"
    and "checklist (decrypt_task E email task)
           = map (\<lambda>item. projr (decrypt_item E email item))
               (sort_key position (checklist_items task))"
proof -
  let ?items = "sort_key position (checklist_items task)"
  from assms obtain d where d: "decryptData E (encrypted_data task) email = Inr d"
    by (cases "decryptData E (encrypted_data task) email")
       (simp_all add: readable_def decrypts_def)
  from assms have "list_all (\<lambda>item. \<not> isl (decrypt_item E email item)) ?items"
    by (simp add: readable_def decrypt_item_isl list_all_sort_key)
  then have m: "map_throwing (decrypt_item E email) ?items
                  = Inr (map (\<lambda>item. projr (decrypt_item E email item)) ?items)"
    by (simp add: map_throwing_Inr)
  show "description (decrypt_task E email task)
          = projr (decryptData E (encrypted_data task) email)"
    by (simp add: decrypt_task_def d m TaskRow.defs DecryptedTask.defs)
  show "checklist (decrypt_task E email task)
          = map (\<lambda>item. projr (decrypt_item E email item)) ?items"
    by (simp add: decrypt_task_def d m TaskRow.defs DecryptedTask.defs)
qed

lemma decrypt_task_checklist_rows:
  assumes "readable E email task"
  shows "map ChecklistItem.truncate (checklist (decrypt_task E email task))
           = sort_key position (checklist_items task)"
    and "map text' (checklist (decrypt_task E email task))
           = map (\<lambda>item. projr (decryptData E (item_encrypted_data item) email))
               (sort_key position (checklist_items task))"
    and "map position (checklist (decrypt_task E email task))
           = map position (sort_key position (checklist_items task))"
proof -
  have all: "\<forall>item \<in> set (sort_key position (checklist_items task)).
               decrypts E email (item_encrypted_data item)"
    using assms by (simp add: readable_def list_all_iff)
  have pt: "ChecklistItem.truncate (projr (decrypt_item E email item)) = item"
           "position (projr (decrypt_item E email item)) = position item"
           "text' (projr (decrypt_item E email item))
              = projr (decryptData E (item_encrypted_data item) email)"
    if "item \<in> set (sort_key position (checklist_items task))" for item
    using all that decrypt_item_projr [of E email item] by blast+
  show "map ChecklistItem.truncate (checklist (decrypt_task E email task))
           = sort_key position (checklist_items task)"
    unfolding decrypt_task_readable(2) [OF assms] map_map comp_def
    by (rule map_idI) (simp only: pt(1))
  show "map text' (checklist (decrypt_task E email task))
           = map (\<lambda>item. projr (decryptData E (item_encrypted_data item) email))
               (sort_key position (checklist_items task))"
    unfolding decrypt_task_readable(2) [OF assms] map_map comp_def
    by (rule map_cong [OF refl]) (simp only: pt(3))
  show "map position (checklist (decrypt_task E email task))
           = map position (sort_key position (checklist_items task))"
    unfolding decrypt_task_readable(2) [OF assms] map_map comp_def
    by (rule map_cong [OF refl]) (simp only: pt(2))
qed

lemma fetchTasks_tasks:
  assumes "user_email = Some email" and "email \<noteq> []"
    and "response_error response = None" and "response_data response = Some rows"
  shows "tasks (fetchTasks E user_email response st) = map (decrypt_task E email) rows"
  using assms by (simp add: fetchTasks_def)

subsection \<open>One unreadable row does not affect the others\<close>

text \<open>
  Claim C8: when the query succeeds for a signed-in user, \<^verbatim>\<open>fetchTasks\<close> shows one task
  per row, in the order of the rows and with the columns of the row. A row whose
  description or one of whose checklist entries does not decrypt is shown with the
  description \<^verbatim>\<open>[Decryption failed]\<close> and an empty checklist; every other row is shown
  with its decrypted description and with its checklist entries, each with its own
  columns and its decrypted text.
\<close>

theorem fetchTasks_isolates_failures:
  assumes "user_email = Some email" and "email \<noteq> []"
    and "response_error response = None" and "response_data response = Some rows"
  shows "length (tasks (fetchTasks E user_email response st)) = length rows \<and>
         (\<forall>i < length rows.
            Task.truncate (tasks (fetchTasks E user_email response st) ! i)
              = Task.truncate (rows ! i) \<and>
            (if readable E email (rows ! i)
             then description (tasks (fetchTasks E user_email response st) ! i)
                    = projr (decryptData E (encrypted_data (rows ! i)) email) \<and>
                  map ChecklistItem.truncate (checklist (tasks (fetchTasks E user_email response st) ! i))
                    = sort_key position (checklist_items (rows ! i)) \<and>
                  map text' (checklist (tasks (fetchTasks E user_email response st) ! i))
                    = map (\<lambda>item. projr (decryptData E (item_encrypted_data item) email))
                        (sort_key position (checklist_items (rows ! i)))
             else description (tasks (fetchTasks E user_email response st) ! i)
                    = ''[Decryption failed]'' \<and>
                  checklist (tasks (fetchTasks E user_email response st) ! i) = []))"
  unfolding fetchTasks_tasks [OF assms]
  by (simp add: decrypt_task_columns decrypt_task_unreadable decrypt_task_readable(1)
      decrypt_task_checklist_rows(1,2))

lemma sample_readable:
  "readable reference user_example (sample_rows ! 0)"
  "\<not> readable reference user_example (sample_rows ! 1)"
  "\<not> readable reference user_example (sample_rows ! 2)"
  by (simp_all add: sample_rows_def sample_row_def sample_item_def readable_def decrypts_def
      sealed_decrypts wellformed_samples sealed_empty_rejected)

lemma sample_first:
  "projr (decryptData reference (encrypted_data (sample_rows ! 0)) user_example) = ''milk''"
  "map (\<lambda>item. projr (decryptData reference (item_encrypted_data item) user_example))
     (sort_key position (checklist_items (sample_rows ! 0))) = [''go'', ''pay'']"
  "map position (sort_key position (checklist_items (sample_rows ! 0))) = [0, 1]"
  by (simp_all add: sample_rows_def sample_row_def sample_item_def sealed_decrypts
      wellformed_samples)

theorem fetchTasks_isolates_failures_witness:
  "user_example \<noteq> [] \<and>
   response_error sample_response = None \<and>
   response_data sample_response = Some sample_rows \<and>
   length sample_shown = 3 \<and>
   description (sample_shown ! 0) = ''milk'' \<and>
   map text' (checklist (sample_shown ! 0)) = [''go'', ''pay''] \<and>
   description (sample_shown ! 1) = ''[Decryption failed]'' \<and>
   checklist (sample_shown ! 1) = [] \<and>
   description (sample_shown ! 2) = ''[Decryption failed]'' \<and>
   checklist (sample_shown ! 2) = []"
proof -
  have h2: "user_example \<noteq> []" by (simp add: user_example_def)
  have h3: "response_error sample_response = None" by (simp add: sample_response_def)
  have h4: "response_data sample_response = Some sample_rows" by (simp add: sample_response_def)
  have l: "length sample_rows = 3" by (simp add: sample_rows_def)
  note T = fetchTasks_isolates_failures [OF refl h2 h3 h4, of reference initial_state,
      folded sample_shown_def]
  from T have len: "length sample_shown = 3" by (simp add: l)
  from T l have a: "\<forall>i<3. (if readable reference user_example (sample_rows ! i)
             then description (sample_shown ! i)
                    = projr (decryptData reference (encrypted_data (sample_rows ! i)) user_example) \<and>
                  map text' (checklist (sample_shown ! i))
                    = map (\<lambda>item. projr (decryptData reference (item_encrypted_data item) user_example))
                        (sort_key position (checklist_items (sample_rows ! i)))
             else description (sample_shown ! i) = ''[Decryption failed]'' \<and>
                  checklist (sample_shown ! i) = [])"
    by simp
  have i0: "(0::nat) < 3" and i1: "(1::nat) < 3" and i2: "(2::nat) < 3" by simp_all
  have "description (sample_shown ! 0) = ''milk'' \<and>
        map text' (checklist (sample_shown ! 0)) = [''go'', ''pay'']"
    using a [rule_format, OF i0] sample_readable(1) by (simp only: if_True sample_first)
  moreover have "description (sample_shown ! 1) = ''[Decryption failed]'' \<and>
        checklist (sample_shown ! 1) = []"
    using a [rule_format, OF i1] sample_readable(2) by (simp only: if_False)
  moreover have "description (sample_shown ! 2) = ''[Decryption failed]'' \<and>
        checklist (sample_shown ! 2) = []"
    using a [rule_format, OF i2] sample_readable(3) by (simp only: if_False)
  ultimately show ?thesis using h2 h3 h4 len by simp
qed

subsection \<open>Order of the checklist\<close>

text \<open>
  Claim C9: in every task that \<^verbatim>\<open>fetchTasks\<close> shows, the checklist is in ascending order of
  position, and for a readable row it consists of exactly the entries of the row, in
  whatever order the store returned them.
\<close>

theorem fetchTasks_checklist_sorted:
  assumes "user_email = Some email" and "email \<noteq> []"
    and "response_error response = None" and "response_data response = Some rows"
  shows "\<forall>i < length rows.
           sorted (map position (checklist (tasks (fetchTasks E user_email response st) ! i))) \<and>
           (readable E email (rows ! i) \<longrightarrow>
              mset (map ChecklistItem.truncate
                      (checklist (tasks (fetchTasks E user_email response st) ! i)))
                = mset (checklist_items (rows ! i)))"
proof (intro allI impI)
  fix i assume i: "i < length rows"
  have s: "sorted (map position (checklist (decrypt_task E email (rows ! i))))"
  proof (cases "readable E email (rows ! i)")
    case True
    then show ?thesis by (simp add: decrypt_task_checklist_rows(3))
  next
    case False
    then show ?thesis by (simp add: decrypt_task_unreadable)
  qed
  have m: "readable E email (rows ! i) \<longrightarrow>
             mset (map ChecklistItem.truncate (checklist (decrypt_task E email (rows ! i))))
               = mset (checklist_items (rows ! i))"
    by (simp add: decrypt_task_checklist_rows(1))
  from s m i show "sorted (map position (checklist (tasks (fetchTasks E user_email response st) ! i))) \<and>
           (readable E email (rows ! i) \<longrightarrow>
              mset (map ChecklistItem.truncate
                      (checklist (tasks (fetchTasks E user_email response st) ! i)))
                = mset (checklist_items (rows ! i)))"
    unfolding fetchTasks_tasks [OF assms] by simp
qed

theorem fetchTasks_checklist_sorted_witness:
  "user_example \<noteq> [] \<and>
   response_error sample_response = None \<and>
   response_data sample_response = Some sample_rows \<and>
   map position (checklist_items (sample_rows ! 0)) = [1, 0] \<and>
   readable reference user_example (sample_rows ! 0) \<and>
   sorted (map position (checklist (sample_shown ! 0))) \<and>
   mset (map ChecklistItem.truncate (checklist (sample_shown ! 0)))
     = mset (checklist_items (sample_rows ! 0))"
proof -
  have h2: "user_example \<noteq> []" by (simp add: user_example_def)
  have h3: "response_error sample_response = None" by (simp add: sample_response_def)
  have h4: "response_data sample_response = Some sample_rows" by (simp add: sample_response_def)
  have l: "0 < length sample_rows" by (simp add: sample_rows_def)
  have p: "map position (checklist_items (sample_rows ! 0)) = [1, 0]"
    by (simp add: sample_rows_def sample_row_def sample_item_def)
  from fetchTasks_checklist_sorted [OF refl h2 h3 h4, of reference initial_state,
      folded sample_shown_def, rule_format, OF l] sample_readable(1) h2 h3 h4 p
  show ?thesis by simp
qed

subsection \<open>Status and completion time\<close>

text \<open>
  Claim C10: whenever \<^verbatim>\<open>toggleTaskStatus\<close> sends an update, in either revision, the update
  sets the status to the other value and sets \<^verbatim>\<open>completed_at\<close> to the current time exactly
  when the new status is \<^verbatim>\<open>'completed'\<close> and to \<^verbatim>\<open>null\<close> exactly when it is \<^verbatim>\<open>'pending'\<close>;
  in the later revision, when the store accepts the update, every task of the list with
  the toggled \<^verbatim>\<open>id\<close> carries this status and time, so its time is present exactly when it
  is completed.
\<close>

theorem toggle_couples_status_and_time:
  "(toggleTaskStatus now user_email store_error task = Requested u i ok \<longrightarrow>
      coupled (set_status u) (set_completed_at u) \<and>
      (set_status u = Completed \<longrightarrow> set_completed_at u = Some now) \<and>
      set_status u \<noteq> status task \<and> i = id' task) \<and>
   (toggleTaskStatus_optimistic now user_email store_error task prev = (shown, Some (u', i')) \<longrightarrow>
      coupled (set_status u') (set_completed_at u') \<and>
      (set_status u' = Completed \<longrightarrow> set_completed_at u' = Some now) \<and>
      set_status u' \<noteq> status task \<and> i' = id' task \<and>
      (store_error = None \<longrightarrow>
         (\<forall>t \<in> set shown. id' t = id' task \<longrightarrow>
            status t = set_status u' \<and> completed_at t = set_completed_at u' \<and>
            coupled (status t) (completed_at t))))"
proof (intro conjI impI)
  assume a: "toggleTaskStatus now user_email store_error task = Requested u i ok"
  then have u: "u = \<lparr> set_status = (if status task = Pending then Completed else Pending),
                      set_completed_at = (if status task = Pending then Some now else None) \<rparr>"
    and i: "i = id' task"
    by (auto simp: toggleTaskStatus_def Let_def split: if_splits)
  show "coupled (set_status u) (set_completed_at u)" by (simp add: u coupled_def)
  show "set_completed_at u = Some now" if "set_status u = Completed"
    using that by (simp add: u split: if_splits)
  show "set_status u \<noteq> status task" by (cases "status task") (simp_all add: u)
  show "i = id' task" by (rule i)
next
  assume a: "toggleTaskStatus_optimistic now user_email store_error task prev = (shown, Some (u', i'))"
  then have u: "u' = \<lparr> set_status = (if status task = Pending then Completed else Pending),
                      set_completed_at = (if status task = Pending then Some now else None) \<rparr>"
    and i: "i' = id' task"
    by (auto simp: toggleTaskStatus_optimistic_def Let_def split: if_splits option.splits)
  show "coupled (set_status u') (set_completed_at u')" by (simp add: u coupled_def)
  show "set_completed_at u' = Some now" if "set_status u' = Completed"
    using that by (simp add: u split: if_splits)
  show "set_status u' \<noteq> status task" by (cases "status task") (simp_all add: u)
  show "i' = id' task" by (rule i)
  show "\<forall>t \<in> set shown. id' t = id' task \<longrightarrow>
            status t = set_status u' \<and> completed_at t = set_completed_at u' \<and>
            coupled (status t) (completed_at t)" if "store_error = None"
  proof -
    from a that have "shown = handleTaskStatusChange (id' task) (set_status u') (set_completed_at u') prev"
      by (auto simp: toggleTaskStatus_optimistic_def Let_def u split: if_splits)
    then show ?thesis
      by (auto simp: handleTaskStatusChange_def u coupled_def)
  qed
qed

theorem toggle_couples_status_and_time_witness:
  "toggleTaskStatus sample_now (Some user_example) None sample_task
     = Requested \<lparr> set_status = Completed, set_completed_at = Some sample_now \<rparr> ''t1'' True \<and>
   coupled Completed (Some sample_now) \<and>
   toggleTaskStatus_optimistic sample_now (Some user_example) None sample_task [sample_task]
     = (sample_toggled, Some (\<lparr> set_status = Completed, set_completed_at = Some sample_now \<rparr>, ''t1'')) \<and>
   length sample_toggled = 1 \<and>
   status (hd sample_toggled) = Completed \<and>
   completed_at (hd sample_toggled) = Some sample_now \<and>
   coupled (status (hd sample_toggled)) (completed_at (hd sample_toggled))"
proof -
  have s: "status sample_task = Pending" "id' sample_task = ''t1''"
    by (simp_all add: sample_task_def sample_row_def TaskRow.defs DecryptedTask.defs)
  have e: "Some user_example \<noteq> Some []" by (simp add: user_example_def)
  have h1: "toggleTaskStatus sample_now (Some user_example) None sample_task
     = Requested \<lparr> set_status = Completed, set_completed_at = Some sample_now \<rparr> ''t1'' True"
    using e by (simp add: toggleTaskStatus_def s)
  have h2: "toggleTaskStatus_optimistic sample_now (Some user_example) None sample_task [sample_task]
     = (sample_toggled, Some (\<lparr> set_status = Completed, set_completed_at = Some sample_now \<rparr>, ''t1''))"
    using e by (simp add: sample_toggled_def toggleTaskStatus_optimistic_def s Let_def)
  have n: "sample_toggled \<noteq> []" "length sample_toggled = 1" "id' (hd sample_toggled) = id' sample_task"
    using e
    by (simp_all add: sample_toggled_def toggleTaskStatus_optimistic_def s Let_def
        handleTaskStatusChange_def)
  note T = toggle_couples_status_and_time [of sample_now "Some user_example" None sample_task
      "\<lparr> set_status = Completed, set_completed_at = Some sample_now \<rparr>" "''t1''" True
      "[sample_task]" sample_toggled
      "\<lparr> set_status = Completed, set_completed_at = Some sample_now \<rparr>" "''t1''"]
  from T h1 have c1: "coupled Completed (Some sample_now)" by simp
  from T h2 have "\<forall>t \<in> set sample_toggled. id' t = id' sample_task \<longrightarrow>
            status t = Completed \<and> completed_at t = Some sample_now \<and>
            coupled (status t) (completed_at t)"
    by simp
  with n have "status (hd sample_toggled) = Completed \<and>
      completed_at (hd sample_toggled) = Some sample_now \<and>
      coupled (status (hd sample_toggled)) (completed_at (hd sample_toggled))"
    by (metis hd_in_set)
  with h1 h2 c1 n show ?thesis by simp
qed

end
